theory Spec2Isabelle
  imports Main "HOL-Library.Sublist"
begin

section \<open>Logistics assistant: chat orchestration, fallback table and shipping facade\<close>

text \<open>
  A shallow embedding of \<^verbatim>\<open>app.py\<close>: the keyword fallback
  (\<^verbatim>\<open>get_fallback_response\<close>), the chat orchestrator
  (\<^verbatim>\<open>get_enhanced_chatbot_response\<close>) and the two shipping operations
  (\<^verbatim>\<open>get_shipping_rates\<close>, \<^verbatim>\<open>track_shipment\<close>).
  A Python string is modelled by the \<^typ>\<open>string\<close> of its UTF-8 encoding, so that ASCII
  text is its own model; \<^verbatim>\<open>str.lower\<close> and \<^verbatim>\<open>str\<close> are builtins of Python and enter
  as parameters. The values decoded from JSON are a datatype; every exception of the source is a value; the network
  is an explicit function from the request sent to what the HTTP client reports, and every
  operation returns the list of requests it has sent together with its outcome.
\<close>

subsection \<open>Strings\<close>

text \<open>
  \<^verbatim>\<open>a in b\<close> on two strings is contiguous containment, \<^const>\<open>sublist\<close> (an ASCII
  phrase is contained in a string exactly when it is contained in the string's encoding). \<^verbatim>\<open>"\n".join(lines)\<close> is \<open>join_lines\<close>.
\<close>

fun join_lines :: "string list \<Rightarrow> string" where
  "join_lines [] = []"
| "join_lines [l] = l"
| "join_lines (l # ls) = l @ CHR 0x0A # join_lines ls"

subsection \<open>The fallback knowledge base\<close>

text \<open>The dictionary literal of \<^verbatim>\<open>get_fallback_response\<close>, in insertion order.\<close>

definition logistics_topics :: "(string \<times> string) list" where
  "logistics_topics =
   [(''shipping rates'', ''Shipping rates vary depending on factors such as package weight, dimensions, destination, and service level. For accurate rates, please use our Shipping Rates Calculator tool in the Tools section.''),
    (''track shipment'', ''To track a shipment, you'll need the tracking number and carrier information. Please use our Shipment Tracker tool in the Tools section for real-time tracking updates.''),
    (''trucking'', ''Trucking is a crucial part of logistics, involving the transportation of goods by road. It includes various types of services such as full truckload (FTL), less than truckload (LTL), and specialized freight.''),
    (''freight forwarding'', ''Freight forwarding involves organizing shipments from the manufacturer or producer to the final point of distribution or consumer.''),
    (''customs'', ''Customs procedures are essential for international shipping. They involve declaring goods, paying duties and taxes, and complying with import/export regulations.''),
    (''packaging'', ''Proper packaging is crucial for protecting your items during shipping. Use appropriate materials like bubble wrap, packing peanuts, or air pillows.''),
    (''insurance'', ''Shipping insurance provides protection against loss, damage, or theft of your packages.''),
    (''international shipping'', ''International shipping involves additional considerations such as customs documentation, duties and taxes, restricted items, and longer transit times.''),
    (''warehousing'', ''Warehousing is the storage of goods before they are shipped to customers.''),
    (''last-mile delivery'', ''Last-mile delivery refers to the final step of the delivery process from a distribution center to the end customer.'')]"

definition generic_prompt :: string where
  "generic_prompt = ''I'm here to help with all your logistics needs, including shipping, trucking, and freight forwarding. Could you please provide more specific information about what you'd like to know? Feel free to ask about topics such as shipping rates, tracking, customs, packaging, insurance, or any other logistics-related questions.''"

text \<open>
  The loop \<^verbatim>\<open>for topic, response in logistics_topics.items()\<close>: the first
  entry whose topic is contained in \<^verbatim>\<open>user_input.lower()\<close> returns; falling out of the
  loop returns the generic prompt. The parameter \<open>lower\<close> is Python's \<^verbatim>\<open>str.lower\<close>.
\<close>

fun topic_loop :: "(string \<Rightarrow> string) \<Rightarrow> (string \<times> string) list \<Rightarrow> string \<Rightarrow> string" where
  "topic_loop lower [] user_input = generic_prompt"
| "topic_loop lower ((topic, response) # rest) user_input =
     (if sublist topic (lower user_input) then response else topic_loop lower rest user_input)"

definition get_fallback_response :: "(string \<Rightarrow> string) \<Rightarrow> string \<Rightarrow> string" where
  "get_fallback_response lower user_input = topic_loop lower logistics_topics user_input"

text \<open>
  What is known of \<^verbatim>\<open>str.lower\<close> and used below: on ASCII text (every code below
  128) it moves the letters A to Z (codes 65 to 90) to a to z and keeps every other
  character. Nothing is assumed of it on other text.
\<close>

definition is_upper :: "char \<Rightarrow> bool" where
  "is_upper c = (65 \<le> (of_char c :: nat) \<and> (of_char c :: nat) \<le> 90)"

definition ascii_lower :: "char \<Rightarrow> char" where
  "ascii_lower c = (if is_upper c then char_of ((of_char c :: nat) + 32) else c)"





subsection \<open>Python values and exceptions\<close>

text \<open>
  What \<^verbatim>\<open>response.json()\<close> returns and what the dictionaries of the program
  hold: \<open>JNull\<close> is \<^verbatim>\<open>None\<close>, \<open>JFloat m e\<close> is the float \<open>m * 2 ^ e\<close>, \<open>JArr\<close> a
  list and \<open>JObj\<close> a \<^verbatim>\<open>dict\<close> with string keys, in insertion order (a key occurs once).
\<close>

datatype json =
    JNull
  | JBool bool
  | JInt int
  | JFloat int int
  | JStr string
  | JArr "json list"
  | JObj "(string \<times> json) list"

text \<open>
  The exceptions the program can meet. \<open>RequestException\<close> stands for the class
  \<^verbatim>\<open>requests.exceptions.RequestException\<close> and all its subclasses (connection errors,
  timeouts, \<^verbatim>\<open>HTTPError\<close>, the client's \<^verbatim>\<open>JSONDecodeError\<close>), with the message.
\<close>

datatype py_exception = RequestException string | KeyError string | IndexError | TypeError

text \<open>Sequencing of statements that may raise: the first exception ends the block.\<close>

definition and_then :: "py_exception + 'a \<Rightarrow> ('a \<Rightarrow> py_exception + 'b) \<Rightarrow> py_exception + 'b" where
  "and_then r f = (case r of Inl e \<Rightarrow> Inl e | Inr v \<Rightarrow> f v)"

text \<open>
  \<^verbatim>\<open>v[k]\<close> with a string key: a dictionary gives the value or \<^verbatim>\<open>KeyError\<close>;
  lists and strings want integer indices and every other value is not subscriptable, both
  \<^verbatim>\<open>TypeError\<close>.
\<close>

fun subscript :: "json \<Rightarrow> string \<Rightarrow> py_exception + json" where
  "subscript (JObj kvs) k = (case map_of kvs k of None \<Rightarrow> Inl (KeyError k) | Some v \<Rightarrow> Inr v)"
| "subscript v k = Inl TypeError"

text \<open>
  \<^verbatim>\<open>v[0]\<close>: the first element of a list, the first character of a string,
  \<^verbatim>\<open>IndexError\<close> when empty; a decoded dictionary has no integer key. (Of a string
  the model takes the first unit of the encoding; the program goes on to subscript the
  result with a key, which is a \<^verbatim>\<open>TypeError\<close> for any string.)
\<close>

fun index0 :: "json \<Rightarrow> py_exception + json" where
  "index0 (JArr []) = Inl IndexError"
| "index0 (JArr (x # xs)) = Inr x"
| "index0 (JStr []) = Inl IndexError"
| "index0 (JStr (c # cs)) = Inr (JStr [c])"
| "index0 (JObj kvs) = Inl (KeyError ''0'')"
| "index0 v = Inl TypeError"

text \<open>
  \<^verbatim>\<open>k in v\<close> for a string \<open>k\<close>: key membership in a dictionary, element membership in a
  list, containment in a string; the other values are not iterable.
\<close>

fun py_in :: "string \<Rightarrow> json \<Rightarrow> py_exception + bool" where
  "py_in k (JObj kvs) = Inr (k \<in> set (map fst kvs))"
| "py_in k (JArr xs) = Inr (JStr k \<in> set xs)"
| "py_in k (JStr s) = Inr (sublist k s)"
| "py_in k v = Inl TypeError"

text \<open>Truth value of a Python value, as \<^verbatim>\<open>and\<close> and \<^verbatim>\<open>if\<close> test it.\<close>

fun truthy :: "json \<Rightarrow> bool" where
  "truthy JNull = False"
| "truthy (JBool b) = b"
| "truthy (JInt i) = (i \<noteq> 0)"
| "truthy (JFloat m e) = (m \<noteq> 0)"
| "truthy (JStr s) = (s \<noteq> [])"
| "truthy (JArr xs) = (xs \<noteq> [])"
| "truthy (JObj kvs) = (kvs \<noteq> [])"

text \<open>
  \<^verbatim>\<open>v[:5]\<close> followed by iteration: the first five elements of a list, the first five
  characters of a string (units of the encoding in the model; each is then subscripted with
  a key, a \<^verbatim>\<open>TypeError\<close> for any string); a dictionary cannot be sliced (\<^verbatim>\<open>TypeError\<close>; CPython from
  3.12 on raises \<^verbatim>\<open>KeyError\<close> instead) and the other values are not subscriptable.
\<close>

fun first5 :: "json \<Rightarrow> py_exception + json list" where
  "first5 (JArr xs) = Inr (take 5 xs)"
| "first5 (JStr s) = Inr (map (\<lambda>c. JStr [c]) (take 5 s))"
| "first5 v = Inl TypeError"

text \<open>
  \<^verbatim>\<open>str(v)\<close>, as an f-string renders a value: a string is itself, \<^verbatim>\<open>None\<close> and the
  booleans print their names. The text of a number, a list or a dictionary is Python's own
  and is taken as the parameter \<open>other\<close>.
\<close>

fun py_str :: "(json \<Rightarrow> string) \<Rightarrow> json \<Rightarrow> string" where
  "py_str other (JStr s) = s"
| "py_str other JNull = ''None''"
| "py_str other (JBool b) = (if b then ''True'' else ''False'')"
| "py_str other v = other v"

subsection \<open>Configuration and network\<close>

datatype http_method = GET | POST

record http_request =
  verb :: http_method
  url :: string
  headers :: "(string \<times> string) list"
  payload :: "json option"

text \<open>
  What the program can observe of a response: \<open>http_error\<close> is the message of the
  \<^verbatim>\<open>HTTPError\<close> that \<^verbatim>\<open>raise_for_status()\<close> raises for an error status (\<open>None\<close>
  when it returns), \<open>decoded\<close> is the value \<^verbatim>\<open>json()\<close> decodes from the body
  (\<open>None\<close> when the body is not JSON).
\<close>

record http_response =
  http_error :: "string option"
  decoded :: "json option"

text \<open>
  The environment of a run: the two credentials read by \<^verbatim>\<open>os.getenv\<close> (\<open>None\<close> when
  the variable is not set), the network (\<open>Inl\<close> the message of the
  \<^verbatim>\<open>RequestException\<close> that \<^verbatim>\<open>requests.post\<close> or \<^verbatim>\<open>requests.get\<close>
  raises, connection failure or timeout), Python's \<^verbatim>\<open>str.lower\<close>, and Python's
  \<^verbatim>\<open>str\<close> on the values that \<open>py_str\<close> leaves open. Log lines and prints are not
  modelled.
\<close>

record env =
  SHIPPO_API_KEY :: "string option"
  GROQ_API_KEY :: "string option"
  network :: "http_request \<Rightarrow> string + http_response"
  str_lower :: "string \<Rightarrow> string"
  str_other :: "json \<Rightarrow> string"

text \<open>\<^verbatim>\<open>not KEY\<close>: the variable is unset or empty.\<close>

definition unconfigured :: "string option \<Rightarrow> bool" where
  "unconfigured key = (case key of None \<Rightarrow> True | Some k \<Rightarrow> k = [])"

definition send :: "env \<Rightarrow> http_request \<Rightarrow> py_exception + http_response" where
  "send w req = (case network w req of Inl e \<Rightarrow> Inl (RequestException e) | Inr response \<Rightarrow> Inr response)"

definition raise_for_status :: "http_response \<Rightarrow> py_exception + unit" where
  "raise_for_status response =
     (case http_error response of Some e \<Rightarrow> Inl (RequestException e) | None \<Rightarrow> Inr ())"

text \<open>
  \<^verbatim>\<open>response.json()\<close> on a body that is not JSON raises the client's own
  \<^verbatim>\<open>JSONDecodeError\<close>, a \<^verbatim>\<open>RequestException\<close> (requests 2.27 and later).
\<close>

definition response_json :: "http_response \<Rightarrow> py_exception + json" where
  "response_json response =
     (case decoded response of None \<Rightarrow> Inl (RequestException ''JSONDecodeError'') | Some v \<Rightarrow> Inr v)"

text \<open>
  The three opening statements every \<^verbatim>\<open>try\<close> block of the program shares: send the
  request, \<^verbatim>\<open>raise_for_status()\<close>, \<^verbatim>\<open>json()\<close>.
\<close>

definition fetch :: "env \<Rightarrow> http_request \<Rightarrow> py_exception + json" where
  "fetch w req =
     and_then (send w req) (\<lambda>response.
     and_then (raise_for_status response) (\<lambda>u.
     response_json response))"

text \<open>\<^verbatim>\<open>except requests.exceptions.RequestException\<close>: any other exception propagates.\<close>

definition except_RequestException :: "py_exception + 'a \<Rightarrow> 'a \<Rightarrow> py_exception + 'a" where
  "except_RequestException r handled =
     (case r of Inl (RequestException e) \<Rightarrow> Inr handled | Inl e \<Rightarrow> Inl e | Inr v \<Rightarrow> Inr v)"

text \<open>
  A call fails when the client reports a transport error or a timeout, when the status is
  an HTTP error, or when the body cannot be decoded.
\<close>

definition call_fails :: "env \<Rightarrow> http_request \<Rightarrow> bool" where
  "call_fails w req =
     (case network w req of
        Inl e \<Rightarrow> True
      | Inr response \<Rightarrow> http_error response \<noteq> None \<or> decoded response = None)"

subsection \<open>The chat orchestrator\<close>

definition GROQ_API_URL :: string where
  "GROQ_API_URL = ''https://api.groq.com/openai/v1/chat/completions''"

definition chat_message :: "string \<Rightarrow> string \<Rightarrow> json" where
  "chat_message role content = JObj [(''role'', JStr role), (''content'', JStr content)]"

definition system_message :: json where
  "system_message = chat_message ''system'' ''You are an expert AI assistant specializing in logistics, shipping, trucking, and freight forwarding. Provide accurate, helpful, and concise information to user queries. Always maintain a friendly and professional tone.''"

text \<open>
  The comprehension
  \<^verbatim>\<open>[{"role": chat["role"], "content": chat["content"]} for chat in chat_history[-5:]]\<close>,
  over the slice already taken.
\<close>

fun history_messages :: "json list \<Rightarrow> py_exception + json list" where
  "history_messages [] = Inr []"
| "history_messages (chat # rest) =
     (case subscript chat ''role'' of
        Inl e \<Rightarrow> Inl e
      | Inr role \<Rightarrow>
          (case subscript chat ''content'' of
             Inl e \<Rightarrow> Inl e
           | Inr content \<Rightarrow>
               (case history_messages rest of
                  Inl e \<Rightarrow> Inl e
                | Inr ms \<Rightarrow> Inr (JObj [(''role'', role), (''content'', content)] # ms))))"

text \<open>\<^verbatim>\<open>chat_history[-5:]\<close>: the last five entries, all of them when there are fewer.\<close>

definition last5 :: "'a list \<Rightarrow> 'a list" where
  "last5 xs = drop (length xs - 5) xs"

definition chat_messages :: "string \<Rightarrow> json list \<Rightarrow> py_exception + json list" where
  "chat_messages user_input chat_history =
     and_then (history_messages (last5 chat_history)) (\<lambda>ms.
     Inr ([system_message] @ ms @ [chat_message ''user'' user_input]))"

definition chat_payload :: "json list \<Rightarrow> json" where
  "chat_payload messages =
     JObj [(''model'', JStr ''mixtral-8x7b-32768''),
           (''messages'', JArr messages),
           (''max_tokens'', JInt 500),
           (''temperature'', JFloat 3152519739159347 (- 52))]"

definition chat_request :: "string \<Rightarrow> json list \<Rightarrow> http_request" where
  "chat_request key messages =
     \<lparr>verb = POST, url = GROQ_API_URL,
      headers = [(''Authorization'', ''Bearer '' @ key), (''Content-Type'', ''application/json'')],
      payload = Some (chat_payload messages)\<rparr>"

text \<open>The \<^verbatim>\<open>try\<close> block: the call, then \<^verbatim>\<open>["choices"][0]["message"]["content"]\<close>.\<close>

definition chat_try :: "env \<Rightarrow> http_request \<Rightarrow> py_exception + json" where
  "chat_try w req =
     and_then (fetch w req) (\<lambda>data.
     and_then (subscript data ''choices'') (\<lambda>choices.
     and_then (index0 choices) (\<lambda>choice.
     and_then (subscript choice ''message'') (\<lambda>message.
     subscript message ''content''))))"

text \<open>
  The result is the list of requests sent and the outcome: the returned value, or the
  exception that leaves the function.
\<close>

definition get_enhanced_chatbot_response ::
  "env \<Rightarrow> string \<Rightarrow> json list \<Rightarrow> http_request list \<times> (py_exception + json)" where
  "get_enhanced_chatbot_response w user_input chat_history =
     (case GROQ_API_KEY w of
        None \<Rightarrow> ([], Inr (JStr (get_fallback_response (str_lower w) user_input)))
      | Some key \<Rightarrow>
          if key = [] then ([], Inr (JStr (get_fallback_response (str_lower w) user_input)))
          else
            (case chat_messages user_input chat_history of
               Inl e \<Rightarrow> ([], Inl e)
             | Inr messages \<Rightarrow>
                 ([chat_request key messages],
                  except_RequestException (chat_try w (chat_request key messages))
                    (JStr (get_fallback_response (str_lower w) user_input)))))"

subsection \<open>The shipping facade\<close>

definition no_rates_message :: string where
  "no_rates_message = ''No rates found for the given shipment details. Please check your input and try again.''"

definition rates_error_message :: string where
  "rates_error_message = ''An error occurred while fetching shipping rates. Please try again later or contact support.''"

definition tracking_unavailable_message :: string where
  "tracking_unavailable_message = ''Shipment tracking is currently unavailable. Please try again later or contact support.''"

definition tracking_error_message :: string where
  "tracking_error_message = ''An error occurred while tracking the shipment. Please try again later or contact support.''"

text \<open>\<^verbatim>\<open>f"ShippoToken {SHIPPO_API_KEY}"\<close>: an unset key prints as \<^verbatim>\<open>None\<close>.\<close>

definition shippo_headers :: "string option \<Rightarrow> (string \<times> string) list" where
  "shippo_headers key =
     [(''Authorization'', ''ShippoToken '' @ (case key of None \<Rightarrow> ''None'' | Some k \<Rightarrow> k))]"

definition rates_request ::
  "env \<Rightarrow> json \<Rightarrow> json \<Rightarrow> json \<Rightarrow> json \<Rightarrow> json \<Rightarrow> json \<Rightarrow> http_request" where
  "rates_request w origin destination weight parcel_length width height =
     \<lparr>verb = POST, url = ''https://api.goshippo.com/shipments/'',
      headers = shippo_headers (SHIPPO_API_KEY w),
      payload = Some (JObj
        [(''address_from'', origin),
         (''address_to'', destination),
         (''parcels'', JArr [JObj
            [(''length'', JStr (py_str (str_other w) parcel_length)),
             (''width'', JStr (py_str (str_other w) width)),
             (''height'', JStr (py_str (str_other w) height)),
             (''distance_unit'', JStr ''in''),
             (''weight'', JStr (py_str (str_other w) weight)),
             (''mass_unit'', JStr ''lb'')]]),
         (''async'', JBool False)])\<rparr>"

text \<open>
  \<^verbatim>\<open>f"{rate['provider']} - ${rate['amount']} ({rate['duration_terms']})"\<close>, the three
  lookups from left to right.
\<close>

definition format_rate :: "(json \<Rightarrow> string) \<Rightarrow> json \<Rightarrow> py_exception + string" where
  "format_rate other rate =
     and_then (subscript rate ''provider'') (\<lambda>provider.
     and_then (subscript rate ''amount'') (\<lambda>amount.
     and_then (subscript rate ''duration_terms'') (\<lambda>terms.
     Inr (py_str other provider @ '' - $'' @ py_str other amount @ '' ('' @ py_str other terms @ '')''))))"

text \<open>The loop that appends one formatted line for each rate.\<close>

fun rates_loop :: "(json \<Rightarrow> string) \<Rightarrow> json list \<Rightarrow> py_exception + string list" where
  "rates_loop other [] = Inr []"
| "rates_loop other (rate # rest) =
     (case format_rate other rate of
        Inl e \<Rightarrow> Inl e
      | Inr line \<Rightarrow>
          (case rates_loop other rest of
             Inl e \<Rightarrow> Inl e
           | Inr rates_info \<Rightarrow> Inr (line # rates_info)))"

definition rates_header :: string where
  "rates_header = ''Available shipping rates:''"

definition rates_try :: "env \<Rightarrow> http_request \<Rightarrow> py_exception + string" where
  "rates_try w req =
     and_then (fetch w req) (\<lambda>data.
     and_then (py_in ''rates'' data) (\<lambda>present.
     if present then
       and_then (subscript data ''rates'') (\<lambda>rates.
       if truthy rates then
         and_then (first5 rates) (\<lambda>top.
         and_then (rates_loop (str_other w) top) (\<lambda>rates_info.
         Inr (rates_header @ [CHR 0x0A] @ join_lines rates_info)))
       else Inr no_rates_message)
     else Inr no_rates_message))"

definition get_shipping_rates ::
  "env \<Rightarrow> json \<Rightarrow> json \<Rightarrow> json \<Rightarrow> json \<Rightarrow> json \<Rightarrow> json \<Rightarrow> http_request list \<times> (py_exception + string)" where
  "get_shipping_rates w origin destination weight parcel_length width height =
     ([rates_request w origin destination weight parcel_length width height],
      except_RequestException
        (rates_try w (rates_request w origin destination weight parcel_length width height))
        rates_error_message)"

definition track_request :: "string \<Rightarrow> string \<Rightarrow> string \<Rightarrow> http_request" where
  "track_request key tracking_number carrier =
     \<lparr>verb = GET,
      url = ''https://api.goshippo.com/tracks/'' @ carrier @ ''/'' @ tracking_number @ ''/'',
      headers = shippo_headers (Some key),
      payload = None\<rparr>"

text \<open>
  The text of the \<^verbatim>\<open>return\<close> statement of \<^verbatim>\<open>track_shipment\<close>:
  \<^verbatim>\<open>f"Tracking Status: {status}\nCurrent Location: {location}, {country}\nEstimated Delivery: {eta}"\<close>.
\<close>

definition track_text :: "env \<Rightarrow> json \<Rightarrow> json \<Rightarrow> json \<Rightarrow> json \<Rightarrow> string" where
  "track_text w status city country eta =
     ''Tracking Status: '' @ py_str (str_other w) status @ [CHR 0x0A]
       @ ''Current Location: '' @ py_str (str_other w) city @ '', '' @ py_str (str_other w) country
       @ [CHR 0x0A]
       @ ''Estimated Delivery: '' @ py_str (str_other w) eta"

text \<open>
  The \<^verbatim>\<open>try\<close> block of \<^verbatim>\<open>track_shipment\<close>: the four assignments in their order
  (\<^verbatim>\<open>tracking_info['tracking_status']\<close> is looked up again for each), then the
  text.
\<close>

definition track_try :: "env \<Rightarrow> http_request \<Rightarrow> py_exception + string" where
  "track_try w req =
     and_then (fetch w req) (\<lambda>tracking_info.
     and_then (subscript tracking_info ''tracking_status'') (\<lambda>ts1.
     and_then (subscript ts1 ''status'') (\<lambda>status.
     and_then (subscript tracking_info ''tracking_status'') (\<lambda>ts2.
     and_then (subscript ts2 ''location'') (\<lambda>loc2.
     and_then (subscript loc2 ''city'') (\<lambda>location.
     and_then (subscript tracking_info ''tracking_status'') (\<lambda>ts3.
     and_then (subscript ts3 ''location'') (\<lambda>loc3.
     and_then (subscript loc3 ''country'') (\<lambda>country.
     and_then (py_in ''eta'' tracking_info) (\<lambda>has_eta.
     and_then (if has_eta then subscript tracking_info ''eta'' else Inr (JStr ''Not available'')) (\<lambda>eta.
     Inr (track_text w status location country eta))))))))))))"

definition track_shipment ::
  "env \<Rightarrow> string \<Rightarrow> string \<Rightarrow> http_request list \<times> (py_exception + string)" where
  "track_shipment w tracking_number carrier =
     (case SHIPPO_API_KEY w of
        None \<Rightarrow> ([], Inr tracking_unavailable_message)
      | Some key \<Rightarrow>
          if key = [] then ([], Inr tracking_unavailable_message)
          else
            ([track_request key tracking_number carrier],
             except_RequestException (track_try w (track_request key tracking_number carrier))
               tracking_error_message))"

subsection \<open>The specification's vocabulary\<close>

text \<open>
  A chat message of the data model: a dictionary with exactly a role and a content, both
  text, as the session appends them to the history.
\<close>

fun is_chat_message :: "json \<Rightarrow> bool" where
  "is_chat_message (JObj [(k1, JStr role), (k2, JStr content)]) = (k1 = ''role'' \<and> k2 = ''content'')"
| "is_chat_message v = False"

text \<open>
  A rate entry of the shipping backend: a dictionary that has a provider, an amount and the
  duration terms (and whatever else the backend sends). Its line is
  \<^verbatim>\<open><provider> - $<amount> (<duration_terms>)\<close>.
\<close>

definition has_key :: "json \<Rightarrow> string \<Rightarrow> bool" where
  "has_key v k = (case v of JObj kvs \<Rightarrow> k \<in> set (map fst kvs) | _ \<Rightarrow> False)"

definition field :: "json \<Rightarrow> string \<Rightarrow> json" where
  "field v k = (case v of JObj kvs \<Rightarrow> (case map_of kvs k of Some x \<Rightarrow> x | None \<Rightarrow> JNull) | _ \<Rightarrow> JNull)"

definition is_rate_entry :: "json \<Rightarrow> bool" where
  "is_rate_entry r = (has_key r ''provider'' \<and> has_key r ''amount'' \<and> has_key r ''duration_terms'')"

definition rate_line :: "(json \<Rightarrow> string) \<Rightarrow> json \<Rightarrow> string" where
  "rate_line other r =
     py_str other (field r ''provider'') @ '' - $'' @ py_str other (field r ''amount'')
       @ '' ('' @ py_str other (field r ''duration_terms'') @ '')''"

text \<open>
  A nested field, named by its path of keys, and the three nested fields a tracking
  response is expected to hold.
\<close>

fun lookup_path :: "json \<Rightarrow> string list \<Rightarrow> py_exception + json" where
  "lookup_path v [] = Inr v"
| "lookup_path v (k # ks) = (case subscript v k of Inl e \<Rightarrow> Inl e | Inr x \<Rightarrow> lookup_path x ks)"



subsection \<open>Example environments\<close>

definition ok_response :: "json \<Rightarrow> http_response" where
  "ok_response data = \<lparr>http_error = None, decoded = Some data\<rparr>"

definition http_500 :: http_response where
  "http_500 = \<lparr>http_error = Some ''500 Server Error: Internal Server Error'', decoded = None\<rparr>"

text \<open>
  Both credentials set; the network answers every request with the given reply. The two
  builtins are given on what the examples use: ASCII text is lowered, a number prints as a
  placeholder.
\<close>

definition env_with :: "string + http_response \<Rightarrow> env" where
  "env_with reply =
     \<lparr>SHIPPO_API_KEY = Some ''shippo_test_key'', GROQ_API_KEY = Some ''gsk_test_key'',
      network = (\<lambda>req. reply), str_lower = map ascii_lower, str_other = (\<lambda>v. ''<value>'')\<rparr>"

text \<open>No credential set and no connection.\<close>

definition offline_env :: env where
  "offline_env =
     \<lparr>SHIPPO_API_KEY = None, GROQ_API_KEY = None,
      network = (\<lambda>req. Inl ''ConnectionError''), str_lower = map ascii_lower,
      str_other = (\<lambda>v. ''<value>'')\<rparr>"

subsection \<open>Example data\<close>

text \<open>
  A history of seven turns, a response with seven rates (each with fields beyond the three
  that are read), a tracking response without \<open>eta\<close>, and one whose status has no location.
\<close>

definition turn :: "string \<Rightarrow> string \<Rightarrow> json" where
  "turn role content = JObj [(''role'', JStr role), (''content'', JStr content)]"

definition seven_turns :: "json list" where
  "seven_turns =
     [turn ''user'' ''one'', turn ''assistant'' ''two'',
      turn ''user'' ''three'', turn ''assistant'' ''four'',
      turn ''user'' ''five'', turn ''assistant'' ''six'',
      turn ''user'' ''seven'']"

definition rate_entry :: "string \<Rightarrow> string \<Rightarrow> string \<Rightarrow> json" where
  "rate_entry provider amount terms =
     JObj [(''object_id'', JStr ''r''), (''provider'', JStr provider), (''amount'', JStr amount),
           (''currency'', JStr ''USD''), (''duration_terms'', JStr terms)]"

definition seven_rates :: "json list" where
  "seven_rates =
     [rate_entry ''USPS'' ''5.50'' ''1-3 days'', rate_entry ''UPS'' ''9.10'' ''2 days'',
      rate_entry ''FedEx'' ''12.00'' ''overnight'', rate_entry ''DHL'' ''14.25'' ''3-5 days'',
      rate_entry ''USPS'' ''7.75'' ''2-3 days'', rate_entry ''UPS'' ''20.00'' ''next day'',
      rate_entry ''FedEx'' ''30.00'' ''same day'']"

definition in_transit :: json where
  "in_transit =
     JObj [(''carrier'', JStr ''usps''),
           (''tracking_status'', JObj
              [(''status'', JStr ''TRANSIT''),
               (''location'', JObj [(''city'', JStr ''Memphis''), (''country'', JStr ''US'')])])]"


subsection \<open>Properties of the fallback\<close>








subsection \<open>Properties of the chat orchestrator and the shipping facade\<close>

lemma and_then_Inl [simp]: "and_then (Inl e) f = Inl e"
  by (simp add: and_then_def)

lemma and_then_Inr [simp]: "and_then (Inr v) f = f v"
  by (simp add: and_then_def)

lemma except_Inr [simp]: "except_RequestException (Inr v) h = Inr v"
  by (simp add: except_RequestException_def)

lemma except_caught [simp]: "except_RequestException (Inl (RequestException e)) h = Inr h"
  by (simp add: except_RequestException_def)


lemma fetch_fails:
  assumes "call_fails w req"
  shows "\<exists>e. fetch w req = Inl (RequestException e)"
  using assms
  by (auto simp: call_fails_def fetch_def send_def raise_for_status_def response_json_def
      split: sum.splits option.splits)

lemma fetch_ok:
  assumes "network w req = Inr response" "http_error response = None" "decoded response = Some data"
  shows "fetch w req = Inr data"
  using assms by (simp add: fetch_def send_def raise_for_status_def response_json_def)

lemma is_chat_messageD: "is_chat_message m \<Longrightarrow> \<exists>role content. m = chat_message role content"
  by (induction m rule: is_chat_message.induct) (simp_all add: chat_message_def)

lemma history_messages_verbatim:
  "list_all is_chat_message ms \<Longrightarrow> history_messages ms = Inr ms"
proof (induction ms)
  case Nil
  then show ?case by simp
next
  case (Cons m ms)
  from Cons.prems have "is_chat_message m"
    by simp
  then obtain role content where "m = chat_message role content"
    using is_chat_messageD by blast
  with Cons show ?case by (simp add: chat_message_def)
qed

lemma length_last5: "5 \<le> length xs \<Longrightarrow> length (last5 xs) = 5"
  by (simp add: last5_def)

text \<open>
  C2. With a chat credential configured and the request built, a call that fails (the
  client raises on transport or timeout, the status is an HTTP error, or the body cannot
  be decoded) makes \<open>get_enhanced_chatbot_response\<close> return, without raising, the text
  of \<open>get_fallback_response\<close> on the current input; the history plays no part in it.
\<close>

theorem chat_failure_falls_back:
  assumes "GROQ_API_KEY w = Some key" and "key \<noteq> []"
    and "chat_messages user_input chat_history = Inr messages"
    and "call_fails w (chat_request key messages)"
  shows "get_enhanced_chatbot_response w user_input chat_history =
           ([chat_request key messages], Inr (JStr (get_fallback_response (str_lower w) user_input)))"
proof -
  obtain e where "fetch w (chat_request key messages) = Inl (RequestException e)"
    using fetch_fails [OF assms(4)] by blast
  then have "chat_try w (chat_request key messages) = Inl (RequestException e)"
    by (simp add: chat_try_def)
  with assms(1-3) show ?thesis
    by (simp add: get_enhanced_chatbot_response_def)
qed

text \<open>
  C4. With no chat credential configured (unset or empty), the orchestrator returns the
  fallback's text for the input and sends no request.
\<close>

theorem chat_unconfigured_short_circuit:
  assumes "unconfigured (GROQ_API_KEY w)"
  shows "get_enhanced_chatbot_response w user_input chat_history =
           ([], Inr (JStr (get_fallback_response (str_lower w) user_input)))"
  using assms
  by (auto simp: unconfigured_def get_enhanced_chatbot_response_def split: option.splits)

text \<open>
  C3. With a chat credential configured and a history of at least five entries whose last
  five are chat messages, exactly one request is sent, and the messages of its payload are
  seven, in this order: the fixed message of role \<open>system\<close>, the last five entries of the
  history unchanged, and a message of role \<open>user\<close> whose content is the new input.
  Earlier entries of the history do not occur.
\<close>

theorem chat_payload_window:
  assumes "GROQ_API_KEY w = Some key" and "key \<noteq> []"
    and "5 \<le> length chat_history"
    and "list_all is_chat_message (drop (length chat_history - 5) chat_history)"
  shows "\<exists>messages.
           fst (get_enhanced_chatbot_response w user_input chat_history) =
             [\<lparr>verb = POST, url = ''https://api.groq.com/openai/v1/chat/completions'',
               headers = [(''Authorization'', ''Bearer '' @ key),
                          (''Content-Type'', ''application/json'')],
               payload = Some (JObj
                 [(''model'', JStr ''mixtral-8x7b-32768''),
                  (''messages'', JArr messages),
                  (''max_tokens'', JInt 500),
                  (''temperature'', JFloat 3152519739159347 (- 52))])\<rparr>]
         \<and> length messages = 7
         \<and> messages =
             [JObj [(''role'', JStr ''system''),
                    (''content'', JStr ''You are an expert AI assistant specializing in logistics, shipping, trucking, and freight forwarding. Provide accurate, helpful, and concise information to user queries. Always maintain a friendly and professional tone.'')]]
             @ drop (length chat_history - 5) chat_history
             @ [JObj [(''role'', JStr ''user''), (''content'', JStr user_input)]]"
proof -
  let ?messages = "[system_message] @ last5 chat_history @ [chat_message ''user'' user_input]"
  have "chat_messages user_input chat_history = Inr ?messages"
    using assms(4) by (simp add: chat_messages_def history_messages_verbatim last5_def)
  with assms(1,2)
  have "fst (get_enhanced_chatbot_response w user_input chat_history) = [chat_request key ?messages]"
    by (simp add: get_enhanced_chatbot_response_def)
  moreover have "length ?messages = 7"
    using assms(3) by (simp add: length_last5)
  ultimately show ?thesis
    by (simp add: chat_request_def chat_payload_def GROQ_API_URL_def system_message_def
        chat_message_def last5_def)
qed


lemma has_key_subscript:
  assumes "has_key r k"
  shows "subscript r k = Inr (field r k)"
proof -
  from assms obtain kvs where r: "r = JObj kvs" and k: "k \<in> set (map fst kvs)"
    by (auto simp: has_key_def split: json.splits)
  from k obtain v where "map_of kvs k = Some v"
    by (cases "map_of kvs k") (auto simp: map_of_eq_None_iff)
  with r show ?thesis
    by (simp add: field_def)
qed

lemma map_of_key:
  assumes "map_of kvs k = Some v"
  shows "k \<in> fst ` set kvs"
  using assms by (metis map_of_eq_None_iff option.distinct(1))

lemma format_rate_line: "is_rate_entry r \<Longrightarrow> format_rate other r = Inr (rate_line other r)"
  by (simp add: is_rate_entry_def format_rate_def rate_line_def has_key_subscript)

lemma rates_loop_lines:
  "list_all is_rate_entry rs \<Longrightarrow> rates_loop other rs = Inr (map (rate_line other) rs)"
  by (induction rs) (simp_all add: format_rate_line)

lemma rates_try_array:
  assumes "fetch w req = Inr (JObj kvs)" and "map_of kvs ''rates'' = Some (JArr rates)"
  shows "rates_try w req =
           (if rates = [] then Inr no_rates_message
            else and_then (rates_loop (str_other w) (take 5 rates)) (\<lambda>rates_info.
                   Inr (rates_header @ [CHR 0x0A] @ join_lines rates_info)))"
  using assms by (simp add: rates_try_def map_of_key)

lemma join_lines_concat:
  "ls \<noteq> [] \<Longrightarrow> [CHR 0x0A] @ join_lines ls = concat (map (\<lambda>l. CHR 0x0A # l) ls)"
  by (induction ls rule: join_lines.induct) simp_all

text \<open>
  C5. On a successful response whose \<open>rates\<close> is an array of \<open>N\<close> entries, the first
  \<open>min N 5\<close> of them rate entries: for \<open>N = 0\<close> the result is the fixed no-rates message;
  for \<open>N \<ge> 1\<close> it is the header line followed by exactly \<open>min N 5\<close> lines, each after a
  newline, one for each of the first five entries in the backend's order, each
  \<^verbatim>\<open><provider> - $<amount> (<duration_terms>)\<close> with the fields as Python prints them
  (a text as it is).
\<close>

theorem rates_success_lines:
  assumes "network w (rates_request w origin destination weight parcel_length width height) = Inr response"
    and "http_error response = None" and "decoded response = Some (JObj kvs)"
    and "map_of kvs ''rates'' = Some (JArr rates)"
    and "list_all is_rate_entry (take 5 rates)"
  shows "(rates = [] \<longrightarrow>
            snd (get_shipping_rates w origin destination weight parcel_length width height) =
              Inr ''No rates found for the given shipment details. Please check your input and try again.'')
       \<and> (rates \<noteq> [] \<longrightarrow>
            (\<exists>lines.
               snd (get_shipping_rates w origin destination weight parcel_length width height) =
                 Inr (''Available shipping rates:'' @ concat (map (\<lambda>line. CHR 0x0A # line) lines))
             \<and> length lines = min (length rates) 5
             \<and> lines =
                 map (\<lambda>rate. py_str (str_other w) (field rate ''provider'') @ '' - $''
                        @ py_str (str_other w) (field rate ''amount'') @ '' (''
                        @ py_str (str_other w) (field rate ''duration_terms'') @ '')'')
                   (take 5 rates)))
       \<and> (\<forall>s. py_str (str_other w) (JStr s) = s)"
proof -
  let ?req = "rates_request w origin destination weight parcel_length width height"
  let ?lines = "map (rate_line (str_other w)) (take 5 rates)"
  have "fetch w ?req = Inr (JObj kvs)"
    using assms(1-3) by (rule fetch_ok)
  then have tried: "rates_try w ?req =
      (if rates = [] then Inr no_rates_message
       else Inr (rates_header @ [CHR 0x0A] @ join_lines ?lines))"
    using assms(4,5) by (simp add: rates_try_array rates_loop_lines)
  have empty: "snd (get_shipping_rates w origin destination weight parcel_length width height) =
      Inr ''No rates found for the given shipment details. Please check your input and try again.''"
    if "rates = []"
    using tried that by (simp add: get_shipping_rates_def no_rates_message_def)
  have some: "snd (get_shipping_rates w origin destination weight parcel_length width height) =
      Inr (''Available shipping rates:'' @ concat (map (\<lambda>line. CHR 0x0A # line) ?lines))"
    if ne: "rates \<noteq> []"
  proof -
    from ne have "?lines \<noteq> []"
      by simp
    then have "[CHR 0x0A] @ join_lines ?lines = concat (map (\<lambda>l. CHR 0x0A # l) ?lines)"
      by (rule join_lines_concat)
    with tried ne show ?thesis
      by (simp add: get_shipping_rates_def rates_header_def)
  qed
  have len: "length ?lines = min (length rates) 5"
    by simp
  have lines: "?lines =
      map (\<lambda>rate. py_str (str_other w) (field rate ''provider'') @ '' - $''
             @ py_str (str_other w) (field rate ''amount'') @ '' (''
             @ py_str (str_other w) (field rate ''duration_terms'') @ '')'')
        (take 5 rates)"
    by (simp add: rate_line_def)
  have pin: "\<forall>s. py_str (str_other w) (JStr s) = s"
    by simp
  from empty some len lines pin show ?thesis
    by blast
qed

text \<open>
  C10. On a successful response whose object has no \<open>rates\<close> key at all,
  \<open>get_shipping_rates\<close> does not raise and returns the fixed no-rates message, the same
  text it returns for an empty \<open>rates\<close> array.
\<close>

theorem rates_missing_key:
  assumes "network w (rates_request w origin destination weight parcel_length width height) = Inr response"
    and "http_error response = None" and "decoded response = Some (JObj kvs)"
    and "\<not> has_key (JObj kvs) ''rates''"
  shows "snd (get_shipping_rates w origin destination weight parcel_length width height) = Inr no_rates_message
         \<and> snd (get_shipping_rates (w\<lparr>network := \<lambda>req. Inr (ok_response (JObj [(''rates'', JArr [])]))\<rparr>)
                 origin destination weight parcel_length width height) = Inr no_rates_message"
proof -
  let ?req = "rates_request w origin destination weight parcel_length width height"
  have "fetch w ?req = Inr (JObj kvs)"
    using assms(1-3) by (rule fetch_ok)
  then have "rates_try w ?req = Inr no_rates_message"
    using assms(4) by (simp add: rates_try_def has_key_def)
  then have first: "snd (get_shipping_rates w origin destination weight parcel_length width height)
      = Inr no_rates_message"
    by (simp add: get_shipping_rates_def)
  let ?w = "w\<lparr>network := \<lambda>req. Inr (ok_response (JObj [(''rates'', JArr [])]))\<rparr>"
  let ?req' = "rates_request ?w origin destination weight parcel_length width height"
  have "fetch ?w ?req' = Inr (JObj [(''rates'', JArr [])])"
    by (rule fetch_ok [where response = "ok_response (JObj [(''rates'', JArr [])])"])
       (simp_all add: ok_response_def)
  then have "rates_try ?w ?req' = Inr no_rates_message"
    by (simp add: rates_try_def)
  then have "snd (get_shipping_rates ?w origin destination weight parcel_length width height)
      = Inr no_rates_message"
    by (simp add: get_shipping_rates_def)
  with first show ?thesis by simp
qed




lemma track_try_paths:
  assumes "fetch w req = Inr data"
  shows "track_try w req =
     and_then (lookup_path data [''tracking_status'', ''status'']) (\<lambda>status.
     and_then (lookup_path data [''tracking_status'', ''location'', ''city'']) (\<lambda>city.
     and_then (lookup_path data [''tracking_status'', ''location'', ''country'']) (\<lambda>country.
     and_then (py_in ''eta'' data) (\<lambda>has_eta.
     and_then (if has_eta then subscript data ''eta'' else Inr (JStr ''Not available'')) (\<lambda>eta.
     Inr (track_text w status city country eta))))))"
  using assms
  by (simp add: track_try_def split: sum.splits)



text \<open>
  C9. On a successful response that holds the status, the city and the country but has no
  top-level \<open>eta\<close>, \<open>track_shipment\<close> returns a text of three lines: the first carries the
  status, the second the city and the country, and the third reads
  \<^verbatim>\<open>Estimated Delivery: Not available\<close>. The fields are shown as Python prints them (a
  text as it is).
\<close>

theorem track_without_eta:
  assumes "SHIPPO_API_KEY w = Some key" and "key \<noteq> []"
    and "network w (track_request key tracking_number carrier) = Inr response"
    and "http_error response = None" and "decoded response = Some (JObj kvs)"
    and "map_of kvs ''tracking_status'' = Some (JObj ts)"
    and "map_of ts ''status'' = Some status"
    and "map_of ts ''location'' = Some (JObj loc)"
    and "map_of loc ''city'' = Some city"
    and "map_of loc ''country'' = Some country"
    and "map_of kvs ''eta'' = None"
  shows "snd (track_shipment w tracking_number carrier) =
           Inr (''Tracking Status: '' @ py_str (str_other w) status @ [CHR 0x0A]
                @ ''Current Location: '' @ py_str (str_other w) city @ '', ''
                    @ py_str (str_other w) country @ [CHR 0x0A]
                @ ''Estimated Delivery: Not available'')
         \<and> (\<forall>s. py_str (str_other w) (JStr s) = s)"
proof -
  let ?req = "track_request key tracking_number carrier"
  have f: "fetch w ?req = Inr (JObj kvs)"
    using assms(3-5) by (rule fetch_ok)
  from assms(11) have "''eta'' \<notin> set (map fst kvs)"
    by (simp add: map_of_eq_None_iff)
  then have "py_in ''eta'' (JObj kvs) = Inr False"
    by simp
  with assms(6-10) have "track_try w ?req =
      Inr (track_text w status city country (JStr ''Not available''))"
    by (simp add: track_try_paths [OF f])
  with assms(1,2) show ?thesis
    by (simp add: track_shipment_def track_text_def)
qed

lemma fallback_rates_question:
  "get_fallback_response (map ascii_lower) ''what are your rates?'' = generic_prompt"
  by code_simp

theorem chat_failure_falls_back_witness:
  "call_fails (env_with (Inr http_500))
     (chat_request ''gsk_test_key'' [system_message, chat_message ''user'' ''what are your rates?''])
   \<and> get_enhanced_chatbot_response (env_with (Inr http_500)) ''what are your rates?'' [] =
       ([chat_request ''gsk_test_key'' [system_message, chat_message ''user'' ''what are your rates?'']],
        Inr (JStr generic_prompt))"
proof -
  let ?w = "env_with (Inr http_500)"
  let ?ms = "[system_message, chat_message ''user'' ''what are your rates?'']"
  have k: "GROQ_API_KEY ?w = Some ''gsk_test_key''" and ne: "''gsk_test_key'' \<noteq> []"
    by (simp_all add: env_with_def)
  have ms: "chat_messages ''what are your rates?'' [] = Inr ?ms"
    by (simp add: chat_messages_def last5_def)
  have fails: "call_fails ?w (chat_request ''gsk_test_key'' ?ms)"
    by (simp add: call_fails_def env_with_def http_500_def)
  from chat_failure_falls_back [OF k ne ms fails] fails show ?thesis
    by (simp add: fallback_rates_question env_with_def)
qed

theorem chat_unconfigured_short_circuit_witness:
  "unconfigured (GROQ_API_KEY offline_env)
   \<and> get_enhanced_chatbot_response offline_env ''what are your rates?'' [] =
       ([], Inr (JStr (get_fallback_response (map ascii_lower) ''what are your rates?'')))
   \<and> get_fallback_response (map ascii_lower) ''what are your rates?'' = generic_prompt"
proof -
  have u: "unconfigured (GROQ_API_KEY offline_env)"
    by (simp add: unconfigured_def offline_env_def)
  from chat_unconfigured_short_circuit [OF u, of "''what are your rates?''" "[]"] u show ?thesis
    by (simp add: fallback_rates_question offline_env_def)
qed

theorem chat_payload_window_witness:
  "length seven_turns = 7
   \<and> fst (get_enhanced_chatbot_response (env_with (Inr http_500)) ''eight'' seven_turns) =
       [\<lparr>verb = POST, url = ''https://api.groq.com/openai/v1/chat/completions'',
         headers = [(''Authorization'', ''Bearer gsk_test_key''),
                    (''Content-Type'', ''application/json'')],
         payload = Some (JObj
           [(''model'', JStr ''mixtral-8x7b-32768''),
            (''messages'', JArr
               [JObj [(''role'', JStr ''system''),
                      (''content'', JStr ''You are an expert AI assistant specializing in logistics, shipping, trucking, and freight forwarding. Provide accurate, helpful, and concise information to user queries. Always maintain a friendly and professional tone.'')],
                JObj [(''role'', JStr ''user''), (''content'', JStr ''three'')],
                JObj [(''role'', JStr ''assistant''), (''content'', JStr ''four'')],
                JObj [(''role'', JStr ''user''), (''content'', JStr ''five'')],
                JObj [(''role'', JStr ''assistant''), (''content'', JStr ''six'')],
                JObj [(''role'', JStr ''user''), (''content'', JStr ''seven'')],
                JObj [(''role'', JStr ''user''), (''content'', JStr ''eight'')]]),
            (''max_tokens'', JInt 500),
            (''temperature'', JFloat 3152519739159347 (- 52))])\<rparr>]"
proof -
  let ?w = "env_with (Inr http_500)"
  have k: "GROQ_API_KEY ?w = Some ''gsk_test_key''" and ne: "''gsk_test_key'' \<noteq> []"
    by (simp_all add: env_with_def)
  have len: "5 \<le> length seven_turns" and seven: "length seven_turns = 7"
    by (simp_all add: seven_turns_def)
  have last: "drop (length seven_turns - 5) seven_turns =
      [turn ''user'' ''three'', turn ''assistant'' ''four'', turn ''user'' ''five'',
       turn ''assistant'' ''six'', turn ''user'' ''seven'']"
    by (simp add: seven_turns_def)
  have ok: "list_all is_chat_message (drop (length seven_turns - 5) seven_turns)"
    unfolding last by (simp add: turn_def)
  from chat_payload_window [OF k ne len ok, of "''eight''"] seven show ?thesis
    unfolding last by (auto simp: turn_def)
qed


subsection \<open>The properties at concrete inputs\<close>



lemma take5_seven_rates:
  "take 5 seven_rates =
     [rate_entry ''USPS'' ''5.50'' ''1-3 days'', rate_entry ''UPS'' ''9.10'' ''2 days'',
      rate_entry ''FedEx'' ''12.00'' ''overnight'', rate_entry ''DHL'' ''14.25'' ''3-5 days'',
      rate_entry ''USPS'' ''7.75'' ''2-3 days'']"
  by (simp add: seven_rates_def)

lemma is_rate_entry_entry: "is_rate_entry (rate_entry provider amount terms)"
  by (simp add: is_rate_entry_def rate_entry_def has_key_def)

lemma field_rate_entry:
  "field (rate_entry provider amount terms) ''provider'' = JStr provider"
  "field (rate_entry provider amount terms) ''amount'' = JStr amount"
  "field (rate_entry provider amount terms) ''duration_terms'' = JStr terms"
  by (simp_all add: field_def rate_entry_def)

theorem rates_success_lines_witness:
  "length seven_rates = 7
   \<and> snd (get_shipping_rates (env_with (Inr (ok_response (JObj [(''rates'', JArr seven_rates)]))))
            (JObj []) (JObj []) (JInt 1) (JInt 10) (JInt 10) (JInt 10)) =
       Inr (''Available shipping rates:'' @ [CHR 0x0A]
            @ ''USPS - $5.50 (1-3 days)'' @ [CHR 0x0A]
            @ ''UPS - $9.10 (2 days)'' @ [CHR 0x0A]
            @ ''FedEx - $12.00 (overnight)'' @ [CHR 0x0A]
            @ ''DHL - $14.25 (3-5 days)'' @ [CHR 0x0A]
            @ ''USPS - $7.75 (2-3 days)'')"
proof -
  let ?kvs = "[(''rates'', JArr seven_rates)]"
  let ?w = "env_with (Inr (ok_response (JObj ?kvs)))"
  have n: "network ?w (rates_request ?w (JObj []) (JObj []) (JInt 1) (JInt 10) (JInt 10) (JInt 10))
             = Inr (ok_response (JObj ?kvs))"
    by (simp add: env_with_def)
  have h: "http_error (ok_response (JObj ?kvs)) = None"
    and d: "decoded (ok_response (JObj ?kvs)) = Some (JObj ?kvs)"
    by (simp_all add: ok_response_def)
  have m: "map_of ?kvs ''rates'' = Some (JArr seven_rates)"
    by simp
  have e: "list_all is_rate_entry (take 5 seven_rates)"
    by (simp add: take5_seven_rates is_rate_entry_entry)
  have ne: "seven_rates \<noteq> []" and len: "length seven_rates = 7"
    by (simp_all add: seven_rates_def)
  from rates_success_lines [OF n h d m e] ne len show ?thesis
    by (auto simp: take5_seven_rates field_rate_entry)
qed

theorem rates_missing_key_witness:
  "\<not> has_key (JObj [(''object_id'', JStr ''abc'')]) ''rates''
   \<and> snd (get_shipping_rates (env_with (Inr (ok_response (JObj [(''object_id'', JStr ''abc'')]))))
            (JObj []) (JObj []) (JInt 1) (JInt 10) (JInt 10) (JInt 10)) = Inr no_rates_message"
proof -
  let ?data = "JObj [(''object_id'', JStr ''abc'')]"
  let ?w = "env_with (Inr (ok_response ?data))"
  have n: "network ?w (rates_request ?w (JObj []) (JObj []) (JInt 1) (JInt 10) (JInt 10) (JInt 10))
             = Inr (ok_response ?data)"
    by (simp add: env_with_def)
  have h: "http_error (ok_response ?data) = None" and d: "decoded (ok_response ?data) = Some ?data"
    by (simp_all add: ok_response_def)
  have k: "\<not> has_key ?data ''rates''"
    by (simp add: has_key_def)
  from rates_missing_key [OF n h d k] k show ?thesis
    by simp
qed


theorem track_without_eta_witness:
  "snd (track_shipment (env_with (Inr (ok_response in_transit))) ''9400100000000000000000'' ''usps'') =
       Inr (''Tracking Status: TRANSIT'' @ [CHR 0x0A]
            @ ''Current Location: Memphis, US'' @ [CHR 0x0A]
            @ ''Estimated Delivery: Not available'')"
proof -
  let ?loc = "[(''city'', JStr ''Memphis''), (''country'', JStr ''US'')]"
  let ?ts = "[(''status'', JStr ''TRANSIT''), (''location'', JObj ?loc)]"
  let ?kvs = "[(''carrier'', JStr ''usps''), (''tracking_status'', JObj ?ts)]"
  let ?w = "env_with (Inr (ok_response in_transit))"
  have k: "SHIPPO_API_KEY ?w = Some ''shippo_test_key''" and ne: "''shippo_test_key'' \<noteq> []"
    by (simp_all add: env_with_def)
  have n: "network ?w (track_request ''shippo_test_key'' ''9400100000000000000000'' ''usps'')
             = Inr (ok_response in_transit)"
    by (simp add: env_with_def)
  have h: "http_error (ok_response in_transit) = None"
    and d: "decoded (ok_response in_transit) = Some (JObj ?kvs)"
    by (simp_all add: ok_response_def in_transit_def)
  have ts: "map_of ?kvs ''tracking_status'' = Some (JObj ?ts)"
    and st: "map_of ?ts ''status'' = Some (JStr ''TRANSIT'')"
    and lo: "map_of ?ts ''location'' = Some (JObj ?loc)"
    and ci: "map_of ?loc ''city'' = Some (JStr ''Memphis'')"
    and co: "map_of ?loc ''country'' = Some (JStr ''US'')"
    and eta: "map_of ?kvs ''eta'' = None"
    by simp_all
  from track_without_eta [OF k ne n h d ts st lo ci co eta] show ?thesis
    by simp
qed



end
